theory Spec2Isabelle
  imports Main
begin

section \<open>The PDF-to-Word upload widget\<close>

text \<open>
  The repository holds three revisions of one browser class, \<open>PDFToWordConverter\<close>:
  \<^item> \<open>v1\<close>: the first document of \<open>src/frontend/script.js\<close> (lines 1 to 177);
  \<^item> \<open>v2\<close>: the second document of \<open>src/frontend/script.js\<close> (lines 178 to 529);
  \<^item> \<open>v3\<close>: \<open>src/unnamed/part_000\<close>.
  Every method is embedded once per revision, under the source's name with the revision
  as suffix. The object's fields and the DOM elements it writes are explicit state; a
  network request and the browser's save action are effects returned next to the state;
  a thrown \<open>Error\<close> is the left summand of a sum, carrying its \<open>message\<close>. An
  \<open>async\<close> method is cut at its first \<open>await fetch\<close>: the part before it runs when the
  method is called, the part after it runs on the settled promise.

  Left out, because no modelled code reads them and the specification calls them
  cosmetic: \<open>console\<close> logging, \<open>style.animation\<close> and \<open>style.background\<close>, the progress
  bar's width and status text with their \<open>setInterval\<close>, the \<open>loadingAnimation\<close> class,
  the cursor follower, and the \<open>dragover\<close> class. The DOM elements the constructor looks
  up (and \<open>.container\<close> in v2) are taken to exist.
\<close>

subsection \<open>JavaScript values\<close>

text \<open>
  What \<open>response.json()\<close> can resolve to, and \<open>undefined\<close> for a property that is not
  there. The widget does no arithmetic on a number of the body: a number is given by the
  two things the widget can observe of it, its ToBoolean (\<open>false\<close> for zero and NaN) and
  its ToString.
\<close>

datatype jsval =
    JUndefined
  | JNull
  | JBool bool
  | JNum bool string
  | JStr string
  | JArr "jsval list"
  | JObj "(string \<times> jsval) list"

text \<open>ToBoolean, which \<open>!x\<close>, \<open>x && y\<close> and \<open>x || y\<close> apply to \<open>x\<close>.\<close>

fun truthy :: "jsval \<Rightarrow> bool" where
  "truthy JUndefined = False"
| "truthy JNull = False"
| "truthy (JBool b) = b"
| "truthy (JNum nonzero shown) = nonzero"
| "truthy (JStr s) = (s \<noteq> [])"
| "truthy (JArr xs) = True"
| "truthy (JObj kvs) = True"

definition js_or :: "jsval \<Rightarrow> jsval \<Rightarrow> jsval" where
  "js_or a b = (if truthy a then a else b)"

text \<open>
  The status of a response in a template literal: the decimal digits of a natural
  number, most significant first.
\<close>

definition digit :: "nat \<Rightarrow> char" where
  "digit d = ''0123456789'' ! d"

fun decimal :: "nat \<Rightarrow> string" where
  "decimal n = (if 10 \<le> n then decimal (n div 10) @ [digit (n mod 10)] else [digit n])"

declare decimal.simps [simp del]

fun join_comma :: "string list \<Rightarrow> string" where
  "join_comma [] = []"
| "join_comma [s] = s"
| "join_comma (s # t # ss) = s @ CHR '','' # join_comma (t # ss)"

text \<open>
  ToString, which a template literal, \<open>new Error(x)\<close> and the assignment to
  \<open>link.download\<close> apply. An array is joined with commas, \<open>null\<close> and \<open>undefined\<close>
  elements giving the empty string.
\<close>

fun to_string :: "jsval \<Rightarrow> string" where
  "to_string JUndefined = ''undefined''"
| "to_string JNull = ''null''"
| "to_string (JBool b) = (if b then ''true'' else ''false'')"
| "to_string (JNum nonzero shown) = shown"
| "to_string (JStr s) = s"
| "to_string (JArr xs) =
     join_comma (map (\<lambda>x. if x = JUndefined \<or> x = JNull then [] else to_string x) xs)"
| "to_string (JObj kvs) = ''[object Object]''"

text \<open>
  A rejected promise or a thrown error is \<open>Inl\<close> of the error's \<open>message\<close>, the only
  part of it that a \<open>catch\<close> block of the widget reads.
\<close>

type_synonym 'a settled = "string + 'a"

definition try_bind :: "string + 'a \<Rightarrow> ('a \<Rightarrow> string + 'b) \<Rightarrow> string + 'b" where
  "try_bind x f = (case x of Inl message \<Rightarrow> Inl message | Inr v \<Rightarrow> f v)"

text \<open>
  Reading the property \<open>k\<close> of a value, for the five names the widget reads (\<open>error\<close>,
  \<open>success\<close>, \<open>file_id\<close>, \<open>filename\<close>, \<open>original_filename\<close>): an object gives the
  property or \<open>undefined\<close>, \<open>null\<close> and \<open>undefined\<close> throw a TypeError (V8's wording of
  the message, with the name between single quotes), every other value has no property
  of these names.
\<close>

definition quoted :: "string \<Rightarrow> string" where
  "quoted k = CHR 0x27 # k @ [CHR 0x27]"

definition field_of :: "(string \<times> jsval) list \<Rightarrow> string \<Rightarrow> jsval" where
  "field_of kvs k = (case map_of kvs k of None \<Rightarrow> JUndefined | Some v \<Rightarrow> v)"

fun get_prop :: "jsval \<Rightarrow> string \<Rightarrow> string + jsval" where
  "get_prop (JObj kvs) k = Inr (field_of kvs k)"
| "get_prop JNull k =
     Inl (''Cannot read properties of null (reading '' @ quoted k @ '')'')"
| "get_prop JUndefined k =
     Inl (''Cannot read properties of undefined (reading '' @ quoted k @ '')'')"
| "get_prop v k = Inr JUndefined"

subsection \<open>Files, requests and responses\<close>

record upload_file =
  file_name :: string
  file_type :: string
  file_size :: nat

datatype request = POST string upload_file | GET string

text \<open>
  What a method does besides writing the state: a request sent with \<open>fetch\<close>, the
  click on a link with a \<open>download\<close> name (the save action, with the size of the blob
  behind the link), and the one \<open>setTimeout\<close> whose callback writes a modelled field.
\<close>

datatype timer = RestoreDownloadBtn

datatype effect = Fetch request | SaveAs string nat | SetTimeout timer nat

text \<open>
  A response: its status, and what each of the three readers of its body settles to when
  it is the one that is called: \<open>response.text()\<close>, \<open>response.json()\<close> and
  \<open>response.blob()\<close> (the blob's size). Each path of the widget calls one reader only.
  \<open>response.ok\<close> is the Fetch standard's: the status is in the range 200 to 299.
\<close>

record response =
  status :: nat
  body_text :: "string settled"
  json :: "jsval settled"
  blob :: "nat settled"

definition ok :: "response \<Rightarrow> bool" where
  "ok r = (200 \<le> status r \<and> status r \<le> 299)"

subsection \<open>The widget's state\<close>

record page =
  uploadArea_display :: string
  progressArea_display :: string
  resultArea_display :: string
  errorArea_display :: string
  errorMessage_textContent :: string
  fileInput_value :: string
  downloadBtn_textContent :: string
  downloadBtn_disabled :: bool

text \<open>
  The fields a converter object sets on itself. v1 keeps the original filename in
  \<open>originalFilename\<close>, v2 and v3 keep the download name in \<open>downloadFilename\<close>; a field
  never assigned is \<open>undefined\<close>.
\<close>

record converter =
  fileId :: jsval
  convertedFilename :: jsval
  originalFilename :: jsval
  downloadFilename :: jsval

record widget =
  self :: converter
  doc :: page

definition new_converter :: converter where
  "new_converter =
     \<lparr>fileId = JUndefined, convertedFilename = JUndefined,
      originalFilename = JUndefined, downloadFilename = JUndefined\<rparr>"

definition error_state :: "page \<Rightarrow> bool" where
  "error_state d =
     (uploadArea_display d = ''block'' \<and> progressArea_display d = ''none'' \<and>
      resultArea_display d = ''none'' \<and> errorArea_display d = ''block'')"

definition upload_only :: "page \<Rightarrow> bool" where
  "upload_only d =
     (uploadArea_display d = ''block'' \<and> progressArea_display d = ''none'' \<and>
      resultArea_display d = ''none'' \<and> errorArea_display d = ''none'')"

definition uploading_state :: "page \<Rightarrow> bool" where
  "uploading_state d =
     (uploadArea_display d = ''none'' \<and> progressArea_display d = ''block'' \<and>
      resultArea_display d = ''none'' \<and> errorArea_display d = ''none'')"

definition result_state :: "page \<Rightarrow> bool" where
  "result_state d =
     (uploadArea_display d = ''none'' \<and> progressArea_display d = ''none'' \<and>
      resultArea_display d = ''block'' \<and> errorArea_display d = ''none'')"

subsection \<open>Methods shared by the three revisions\<close>

text \<open>\<open>showError\<close> and \<open>showProgress\<close> write the same fields in v1, v2 and v3.\<close>

definition showError :: "string \<Rightarrow> widget \<Rightarrow> widget" where
  "showError message w =
     w\<lparr>doc := (doc w)\<lparr>uploadArea_display := ''block'', progressArea_display := ''none'',
                       resultArea_display := ''none'', errorArea_display := ''block'',
                       errorMessage_textContent := message\<rparr>\<rparr>"

definition showProgress :: "widget \<Rightarrow> widget" where
  "showProgress w =
     w\<lparr>doc := (doc w)\<lparr>uploadArea_display := ''none'', progressArea_display := ''block'',
                       resultArea_display := ''none'', errorArea_display := ''none''\<rparr>\<rparr>"

subsection \<open>v1: the first document of script.js\<close>

definition backendUrl_v1 :: string where
  "backendUrl_v1 = ''https://pdf2word-4hoo.onrender.com''"

text \<open>\<open>convertFile\<close> up to \<open>await fetch\<close>: the progress region is shown and the POST is sent.\<close>

definition convertFile_v1 :: "widget \<Rightarrow> upload_file \<Rightarrow> widget \<times> effect list" where
  "convertFile_v1 w file =
     (showProgress w, [Fetch (POST (backendUrl_v1 @ ''/convert'') file)])"

definition handleFile_v1 :: "widget \<Rightarrow> upload_file \<Rightarrow> widget \<times> effect list" where
  "handleFile_v1 w file =
     (if file_type file \<noteq> ''application/pdf'' then
        (showError ''Please select a PDF file'' w, [])
      else if file_size file > 20 * 1024 * 1024 then
        (showError ''File size must be less than 20MB'' w, [])
      else convertFile_v1 w file)"

definition showResult_v1 :: "jsval \<Rightarrow> jsval \<Rightarrow> jsval \<Rightarrow> widget \<Rightarrow> widget" where
  "showResult_v1 fid filename original w =
     w\<lparr>self := (self w)\<lparr>fileId := fid, convertedFilename := filename,
                         originalFilename := original\<rparr>,
       doc := (doc w)\<lparr>progressArea_display := ''none'', resultArea_display := ''block''\<rparr>\<rparr>"

text \<open>
  The \<open>try\<close> block of \<open>convertFile\<close> after the fetch has settled: \<open>Inl\<close> is the message
  of what it throws, \<open>Inr\<close> the three arguments it passes to \<open>showResult\<close>.
\<close>

definition convertFile_try_v1 :: "response settled \<Rightarrow> string + jsval \<times> jsval \<times> jsval" where
  "convertFile_try_v1 fetched =
     try_bind fetched (\<lambda>response.
     try_bind (json response) (\<lambda>result.
       if \<not> ok response then
         try_bind (get_prop result ''error'') (\<lambda>e.
           Inl (to_string (js_or e (JStr ''Conversion failed''))))
       else
         try_bind (get_prop result ''file_id'') (\<lambda>fid.
         try_bind (get_prop result ''filename'') (\<lambda>filename.
         try_bind (get_prop result ''original_filename'') (\<lambda>original.
           Inr (fid, filename, original))))))"

definition convertFile_settled_v1 :: "widget \<Rightarrow> response settled \<Rightarrow> widget" where
  "convertFile_settled_v1 w fetched =
     (case convertFile_try_v1 fetched of
        Inl message \<Rightarrow> showError message w
      | Inr (fid, filename, original) \<Rightarrow> showResult_v1 fid filename original w)"

text \<open>\<open>downloadConvertedFile\<close> up to \<open>await fetch\<close>; without a stored result it does nothing.\<close>

definition downloadConvertedFile_v1 :: "widget \<Rightarrow> widget \<times> effect list" where
  "downloadConvertedFile_v1 w =
     (if truthy (fileId (self w)) \<and> truthy (convertedFilename (self w)) then
        (w\<lparr>doc := (doc w)\<lparr>downloadBtn_textContent := ''Downloading...'',
                           downloadBtn_disabled := True\<rparr>\<rparr>,
         [Fetch (GET (backendUrl_v1 @ ''/download/'' @ to_string (fileId (self w)) @ ''/'' @
                      to_string (convertedFilename (self w))))])
      else (w, []))"

definition downloadConvertedFile_try_v1 :: "response settled \<Rightarrow> string + nat" where
  "downloadConvertedFile_try_v1 fetched =
     try_bind fetched (\<lambda>response.
       if \<not> ok response then Inl ''Download failed''
       else try_bind (blob response) (\<lambda>bytes. Inr bytes))"

text \<open>The \<open>finally\<close> block, the same in the three revisions.\<close>

definition download_finally :: "widget \<Rightarrow> widget" where
  "download_finally w =
     w\<lparr>doc := (doc w)\<lparr>downloadBtn_textContent := ''Download Word Document'',
                       downloadBtn_disabled := False\<rparr>\<rparr>"

text \<open>
  The rest of \<open>downloadConvertedFile\<close>, run when the fetch has settled and only if the
  first part sent the request.
\<close>

definition downloadConvertedFile_settled_v1 ::
  "widget \<Rightarrow> response settled \<Rightarrow> widget \<times> effect list" where
  "downloadConvertedFile_settled_v1 w fetched =
     (case downloadConvertedFile_try_v1 fetched of
        Inl message \<Rightarrow>
          (download_finally (showError ''Download failed. Please try again.'' w), [])
      | Inr bytes \<Rightarrow>
          (download_finally w,
           [SaveAs (to_string (js_or (originalFilename (self w)) (JStr ''converted.docx'')))
                   bytes]))"

text \<open>
  \<open>resetConverter\<close> of v1 constructs a second converter on the same page and empties the
  file input. The constructor looks the elements up and adds its listeners; it writes no
  element. The state is the page with every converter whose listeners are attached.
\<close>

definition resetConverter_v1 :: "converter list \<times> page \<Rightarrow> converter list \<times> page" where
  "resetConverter_v1 st =
     (fst st @ [new_converter], (snd st)\<lparr>fileInput_value := []\<rparr>)"

subsection \<open>v2: the second document of script.js\<close>

definition backendUrl_v2 :: string where
  "backendUrl_v2 = ''https://pdf2word-4hoo.onrender.com''"

definition convertFile_v2 :: "widget \<Rightarrow> upload_file \<Rightarrow> widget \<times> effect list" where
  "convertFile_v2 w file =
     (showProgress w, [Fetch (POST (backendUrl_v2 @ ''/convert'') file)])"

definition handleFile_v2 :: "widget \<Rightarrow> upload_file \<Rightarrow> widget \<times> effect list" where
  "handleFile_v2 w file =
     (if file_type file \<noteq> ''application/pdf'' then
        (showError ''Please select a PDF file'' w, [])
      else if file_size file > 20 * 1024 * 1024 then
        (showError ''File size must be less than 20MB'' w, [])
      else if file_size file = 0 then
        (showError ''File is empty'' w, [])
      else convertFile_v2 w file)"

text \<open>\<open>showResult\<close> of v2: the download name falls back to a default.\<close>

definition showResult_v2 :: "jsval \<Rightarrow> jsval \<Rightarrow> jsval \<Rightarrow> widget \<Rightarrow> widget" where
  "showResult_v2 fid filename original w =
     w\<lparr>self := (self w)\<lparr>fileId := fid, convertedFilename := filename,
                         downloadFilename := js_or original (JStr ''converted_document.docx'')\<rparr>,
       doc := (doc w)\<lparr>progressArea_display := ''none'', resultArea_display := ''block''\<rparr>\<rparr>"

text \<open>
  The \<open>try\<close> block of v2: on a response that is not ok it awaits the text of the body,
  which it only logs, and throws a message built from the status alone; if the text
  does not arrive, that rejection is what the block throws. An ok response is parsed and
  its \<open>success\<close> field tested.
\<close>

definition convertFile_try_v2 :: "response settled \<Rightarrow> string + jsval \<times> jsval \<times> jsval" where
  "convertFile_try_v2 fetched =
     try_bind fetched (\<lambda>response.
       if \<not> ok response then
         try_bind (body_text response) (\<lambda>errorText.
           Inl (''Conversion failed ('' @ decimal (status response) @ '')''))
       else
         try_bind (json response) (\<lambda>result.
         try_bind (get_prop result ''success'') (\<lambda>success.
           if \<not> truthy success then
             try_bind (get_prop result ''error'') (\<lambda>e.
               Inl (to_string (js_or e (JStr ''Conversion failed''))))
           else
             try_bind (get_prop result ''file_id'') (\<lambda>fid.
             try_bind (get_prop result ''filename'') (\<lambda>filename.
             try_bind (get_prop result ''original_filename'') (\<lambda>original.
               Inr (fid, filename, original)))))))"

definition convertFile_settled_v2 :: "widget \<Rightarrow> response settled \<Rightarrow> widget" where
  "convertFile_settled_v2 w fetched =
     (case convertFile_try_v2 fetched of
        Inl message \<Rightarrow>
          showError (if message \<noteq> [] then message
                     else ''Conversion failed. Please try again.'') w
      | Inr (fid, filename, original) \<Rightarrow> showResult_v2 fid filename original w)"

definition downloadConvertedFile_v2 :: "widget \<Rightarrow> widget \<times> effect list" where
  "downloadConvertedFile_v2 w =
     (if \<not> truthy (fileId (self w)) then (showError ''No file to download'' w, [])
      else
        (w\<lparr>doc := (doc w)\<lparr>downloadBtn_textContent := ''Downloading...'',
                           downloadBtn_disabled := True\<rparr>\<rparr>,
         [Fetch (GET (backendUrl_v2 @ ''/download/'' @ to_string (fileId (self w))))]))"

definition downloadConvertedFile_try_v2 :: "response settled \<Rightarrow> string + nat" where
  "downloadConvertedFile_try_v2 fetched =
     try_bind fetched (\<lambda>response.
       if \<not> ok response then
         try_bind (body_text response) (\<lambda>errorText.
           Inl ''Download failed - file may have expired'')
       else
         try_bind (blob response) (\<lambda>bytes.
           if bytes = 0 then Inl ''Downloaded file is empty'' else Inr bytes))"

text \<open>
  \<open>showDownloadSuccess\<close> writes a label of three non-ASCII characters and a word (the
  bytes below are the source file's) and sets a timer of two seconds that writes the
  usual label back.
\<close>

definition downloaded_label :: string where
  "downloaded_label =
     [CHR 0xC3, CHR 0xA2, CHR 0xC5, CHR 0x93, CHR 0xE2, CHR 0x80, CHR 0x9C] @ '' Downloaded!''"

definition showDownloadSuccess :: "widget \<Rightarrow> widget \<times> effect list" where
  "showDownloadSuccess w =
     (w\<lparr>doc := (doc w)\<lparr>downloadBtn_textContent := downloaded_label\<rparr>\<rparr>,
      [SetTimeout RestoreDownloadBtn 2000])"

fun run_timer :: "timer \<Rightarrow> widget \<Rightarrow> widget" where
  "run_timer RestoreDownloadBtn w =
     w\<lparr>doc := (doc w)\<lparr>downloadBtn_textContent := ''Download Word Document''\<rparr>\<rparr>"

definition downloadConvertedFile_settled_v2 ::
  "widget \<Rightarrow> response settled \<Rightarrow> widget \<times> effect list" where
  "downloadConvertedFile_settled_v2 w fetched =
     (case downloadConvertedFile_try_v2 fetched of
        Inl message \<Rightarrow> (download_finally (showError (''Download failed: '' @ message) w), [])
      | Inr bytes \<Rightarrow>
          (download_finally (fst (showDownloadSuccess w)),
           SaveAs (to_string (downloadFilename (self w))) bytes # snd (showDownloadSuccess w)))"

definition resetToUpload_v2 :: "widget \<Rightarrow> widget" where
  "resetToUpload_v2 w =
     w\<lparr>doc := (doc w)\<lparr>uploadArea_display := ''block'', progressArea_display := ''none'',
                       resultArea_display := ''none'', errorArea_display := ''none'',
                       fileInput_value := []\<rparr>\<rparr>"

subsection \<open>v3: part_000\<close>

definition backendUrl_v3 :: string where
  "backendUrl_v3 = ''https://pdf2msword.netlify.app''"

definition convertFile_v3 :: "widget \<Rightarrow> upload_file \<Rightarrow> widget \<times> effect list" where
  "convertFile_v3 w file =
     (showProgress w, [Fetch (POST (backendUrl_v3 @ ''/convert'') file)])"

definition handleFile_v3 :: "widget \<Rightarrow> upload_file \<Rightarrow> widget \<times> effect list" where
  "handleFile_v3 w file =
     (if file_type file \<noteq> ''application/pdf'' then
        (showError ''Please select a PDF file'' w, [])
      else if file_size file > 20 * 1024 * 1024 then
        (showError ''File size must be less than 20MB'' w, [])
      else if file_size file = 0 then
        (showError ''File is empty'' w, [])
      else convertFile_v3 w file)"

definition convertFile_try_v3 :: "response settled \<Rightarrow> string + jsval \<times> jsval \<times> jsval" where
  "convertFile_try_v3 fetched =
     try_bind fetched (\<lambda>response.
     try_bind (json response) (\<lambda>result.
       if \<not> ok response then
         try_bind (get_prop result ''error'') (\<lambda>e.
           Inl (to_string (js_or e
                  (JStr (''Conversion failed ('' @ decimal (status response) @ '')'')))))
       else
         try_bind (get_prop result ''file_id'') (\<lambda>fid.
         try_bind (get_prop result ''filename'') (\<lambda>filename.
         try_bind (get_prop result ''original_filename'') (\<lambda>original.
           Inr (fid, filename, original))))))"

definition showResult_v3 :: "jsval \<Rightarrow> jsval \<Rightarrow> jsval \<Rightarrow> widget \<Rightarrow> widget" where
  "showResult_v3 fid filename original w =
     w\<lparr>self := (self w)\<lparr>fileId := fid, convertedFilename := filename,
                         downloadFilename := js_or original (JStr ''converted_document.docx'')\<rparr>,
       doc := (doc w)\<lparr>progressArea_display := ''none'', resultArea_display := ''block''\<rparr>\<rparr>"

definition convertFile_settled_v3 :: "widget \<Rightarrow> response settled \<Rightarrow> widget" where
  "convertFile_settled_v3 w fetched =
     (case convertFile_try_v3 fetched of
        Inl message \<Rightarrow> showError message w
      | Inr (fid, filename, original) \<Rightarrow> showResult_v3 fid filename original w)"

definition downloadConvertedFile_v3 :: "widget \<Rightarrow> widget \<times> effect list" where
  "downloadConvertedFile_v3 w =
     (if \<not> truthy (fileId (self w)) then (showError ''No file to download'' w, [])
      else
        (w\<lparr>doc := (doc w)\<lparr>downloadBtn_textContent := ''Downloading...'',
                           downloadBtn_disabled := True\<rparr>\<rparr>,
         [Fetch (GET (backendUrl_v3 @ ''/download/'' @ to_string (fileId (self w))))]))"

definition downloadConvertedFile_try_v3 :: "response settled \<Rightarrow> string + nat" where
  "downloadConvertedFile_try_v3 fetched =
     try_bind fetched (\<lambda>response.
       if \<not> ok response then
         try_bind (json response) (\<lambda>error.
         try_bind (get_prop error ''error'') (\<lambda>e.
           Inl (to_string (js_or e (JStr ''Download failed'')))))
       else try_bind (blob response) (\<lambda>bytes. Inr bytes))"

definition downloadConvertedFile_settled_v3 ::
  "widget \<Rightarrow> response settled \<Rightarrow> widget \<times> effect list" where
  "downloadConvertedFile_settled_v3 w fetched =
     (case downloadConvertedFile_try_v3 fetched of
        Inl message \<Rightarrow> (download_finally (showError (''Download failed: '' @ message) w), [])
      | Inr bytes \<Rightarrow>
          (download_finally w, [SaveAs (to_string (downloadFilename (self w))) bytes]))"

text \<open>
  \<open>resetConverter\<close> of v2 and v3 is \<open>location.reload()\<close>: the page is loaded again as its
  HTML gives it (a parameter: the HTML is not in the repository), a new converter is
  constructed on it, and its constructor probes the backend.
\<close>

definition resetConverter_v2 :: "page \<Rightarrow> widget \<times> effect list" where
  "resetConverter_v2 loaded =
     (\<lparr>self = new_converter, doc = loaded\<rparr>, [Fetch (GET (backendUrl_v2 @ ''/health''))])"

definition resetConverter_v3 :: "page \<Rightarrow> widget \<times> effect list" where
  "resetConverter_v3 loaded =
     (\<lparr>self = new_converter, doc = loaded\<rparr>, [Fetch (GET (backendUrl_v3 @ ''/health''))])"

subsection \<open>Pages and their events\<close>

text \<open>
  What happens on a page of v2 or v3, which holds one converter: the listeners of
  \<open>initEventListeners\<close> run on a chosen or dropped file, on a click on the download
  button and (v2) on a click on the new-file button; a fetch settles and the rest of
  the async method runs; the timer of \<open>showDownloadSuccess\<close> fires; \<open>resetConverter\<close>
  reloads the page, which drops the requests that have not settled. The state counts
  the download requests sent and not yet settled. The browser dispatches no click on
  a disabled button, and nothing settles when no request is pending.
\<close>

record sys =
  widget_now :: widget
  downloads_pending :: nat

datatype event =
    FileChosen upload_file
  | ConvertSettled "response settled"
  | DownloadClicked
  | DownloadSettled "response settled"
  | NewFileClicked
  | TimerFired timer
  | ResetConverter page

fun step_v2 :: "event \<Rightarrow> sys \<Rightarrow> sys" where
  "step_v2 (FileChosen file) s =
     s\<lparr>widget_now := fst (handleFile_v2 (widget_now s) file)\<rparr>"
| "step_v2 (ConvertSettled fetched) s =
     s\<lparr>widget_now := convertFile_settled_v2 (widget_now s) fetched\<rparr>"
| "step_v2 DownloadClicked s =
     (if downloadBtn_disabled (doc (widget_now s)) then s
      else s\<lparr>widget_now := fst (downloadConvertedFile_v2 (widget_now s)),
             downloads_pending :=
               downloads_pending s + length (snd (downloadConvertedFile_v2 (widget_now s)))\<rparr>)"
| "step_v2 (DownloadSettled fetched) s =
     (if downloads_pending s = 0 then s
      else s\<lparr>widget_now := fst (downloadConvertedFile_settled_v2 (widget_now s) fetched),
             downloads_pending := downloads_pending s - 1\<rparr>)"
| "step_v2 NewFileClicked s = s\<lparr>widget_now := resetToUpload_v2 (widget_now s)\<rparr>"
| "step_v2 (TimerFired t) s = s\<lparr>widget_now := run_timer t (widget_now s)\<rparr>"
| "step_v2 (ResetConverter loaded) s =
     \<lparr>widget_now = fst (resetConverter_v2 loaded), downloads_pending = 0\<rparr>"

text \<open>v3 has no new-file button and sets no timer.\<close>

fun step_v3 :: "event \<Rightarrow> sys \<Rightarrow> sys" where
  "step_v3 (FileChosen file) s =
     s\<lparr>widget_now := fst (handleFile_v3 (widget_now s) file)\<rparr>"
| "step_v3 (ConvertSettled fetched) s =
     s\<lparr>widget_now := convertFile_settled_v3 (widget_now s) fetched\<rparr>"
| "step_v3 DownloadClicked s =
     (if downloadBtn_disabled (doc (widget_now s)) then s
      else s\<lparr>widget_now := fst (downloadConvertedFile_v3 (widget_now s)),
             downloads_pending :=
               downloads_pending s + length (snd (downloadConvertedFile_v3 (widget_now s)))\<rparr>)"
| "step_v3 (DownloadSettled fetched) s =
     (if downloads_pending s = 0 then s
      else s\<lparr>widget_now := fst (downloadConvertedFile_settled_v3 (widget_now s) fetched),
             downloads_pending := downloads_pending s - 1\<rparr>)"
| "step_v3 NewFileClicked s = s"
| "step_v3 (TimerFired t) s = s"
| "step_v3 (ResetConverter loaded) s =
     \<lparr>widget_now = fst (resetConverter_v3 loaded), downloads_pending = 0\<rparr>"

fun run :: "('e \<Rightarrow> 's \<Rightarrow> 's) \<Rightarrow> 'e list \<Rightarrow> 's \<Rightarrow> 's" where
  "run step [] s = s"
| "run step (e # es) s = run step es (step e s)"

text \<open>
  A request is pending only while the button is disabled, and one at a time.
\<close>

definition guarded :: "nat \<Rightarrow> page \<Rightarrow> bool" where
  "guarded pending d = (pending = 0 \<or> (pending = 1 \<and> downloadBtn_disabled d))"

text \<open>
  A page of v1 holds every converter that was constructed on it: the first, and one more
  for each call of \<open>resetConverter\<close>. Each has added its listeners to the same elements,
  so an event runs the listener of every converter, in the order of construction, on
  the one page. A settled fetch resumes the converter that sent it.
\<close>

fun dispatch ::
  "(widget \<Rightarrow> widget \<times> effect list) \<Rightarrow> converter list \<Rightarrow> page \<Rightarrow>
   (converter list \<times> page) \<times> effect list" where
  "dispatch listener [] d = (([], d), [])"
| "dispatch listener (c # cs) d =
     (let first = listener \<lparr>self = c, doc = d\<rparr>;
          others = dispatch listener cs (doc (fst first))
      in ((self (fst first) # fst (fst others), snd (fst others)), snd first @ snd others))"

definition resume ::
  "nat \<Rightarrow> (widget \<Rightarrow> widget) \<Rightarrow> converter list \<Rightarrow> page \<Rightarrow> converter list \<times> page" where
  "resume i continuation cs d =
     (if i < length cs then
        (cs[i := self (continuation \<lparr>self = cs ! i, doc = d\<rparr>)],
         doc (continuation \<lparr>self = cs ! i, doc = d\<rparr>))
      else (cs, d))"

record sys_v1 =
  converters :: "converter list"
  page_now :: page
  downloads_pending_v1 :: nat

datatype event_v1 =
    FileChosen_v1 upload_file
  | ConvertSettled_v1 nat "response settled"
  | DownloadClicked_v1
  | DownloadSettled_v1 nat "response settled"
  | ResetConverter_v1

fun step_v1 :: "event_v1 \<Rightarrow> sys_v1 \<Rightarrow> sys_v1" where
  "step_v1 (FileChosen_v1 file) s =
     s\<lparr>converters :=
         fst (fst (dispatch (\<lambda>w. handleFile_v1 w file) (converters s) (page_now s))),
       page_now :=
         snd (fst (dispatch (\<lambda>w. handleFile_v1 w file) (converters s) (page_now s)))\<rparr>"
| "step_v1 (ConvertSettled_v1 i fetched) s =
     s\<lparr>converters :=
         fst (resume i (\<lambda>w. convertFile_settled_v1 w fetched) (converters s) (page_now s)),
       page_now :=
         snd (resume i (\<lambda>w. convertFile_settled_v1 w fetched) (converters s) (page_now s))\<rparr>"
| "step_v1 DownloadClicked_v1 s =
     (if downloadBtn_disabled (page_now s) then s
      else
        \<lparr>converters = fst (fst (dispatch downloadConvertedFile_v1 (converters s) (page_now s))),
         page_now = snd (fst (dispatch downloadConvertedFile_v1 (converters s) (page_now s))),
         downloads_pending_v1 =
           downloads_pending_v1 s +
           length (snd (dispatch downloadConvertedFile_v1 (converters s) (page_now s)))\<rparr>)"
| "step_v1 (DownloadSettled_v1 i fetched) s =
     (if downloads_pending_v1 s = 0 then s
      else
        \<lparr>converters =
           fst (resume i (\<lambda>w. fst (downloadConvertedFile_settled_v1 w fetched))
                  (converters s) (page_now s)),
         page_now =
           snd (resume i (\<lambda>w. fst (downloadConvertedFile_settled_v1 w fetched))
                  (converters s) (page_now s)),
         downloads_pending_v1 = downloads_pending_v1 s - 1\<rparr>)"
| "step_v1 ResetConverter_v1 s =
     s\<lparr>converters := fst (resetConverter_v1 (converters s, page_now s)),
       page_now := snd (resetConverter_v1 (converters s, page_now s))\<rparr>"

subsection \<open>Widgets and responses to run the methods on\<close>

text \<open>
  The widget showing the upload region only, with no stored result and the download
  button as the \<open>finally\<close> block leaves it.
\<close>

definition idle_widget :: widget where
  "idle_widget =
     \<lparr>self = new_converter,
      doc = \<lparr>uploadArea_display = ''block'', progressArea_display = ''none'',
             resultArea_display = ''none'', errorArea_display = ''none'',
             errorMessage_textContent = [], fileInput_value = [],
             downloadBtn_textContent = ''Download Word Document'',
             downloadBtn_disabled = False\<rparr>\<rparr>"

text \<open>A widget holding the result of a conversion, in the result state.\<close>

definition stored_widget :: widget where
  "stored_widget =
     \<lparr>self = \<lparr>fileId = JStr ''abc123'', convertedFilename = JStr ''abc123.docx'',
              originalFilename = JStr ''report.docx'', downloadFilename = JStr ''report.docx''\<rparr>,
      doc = \<lparr>uploadArea_display = ''none'', progressArea_display = ''none'',
             resultArea_display = ''block'', errorArea_display = ''none'',
             errorMessage_textContent = [], fileInput_value = ''C:/fakepath/report.pdf'',
             downloadBtn_textContent = ''Download Word Document'',
             downloadBtn_disabled = False\<rparr>\<rparr>"

text \<open>A page of v1 as loaded: one converter, the upload region only.\<close>

definition loaded_v1 :: sys_v1 where
  "loaded_v1 =
     \<lparr>converters = [new_converter], page_now = doc idle_widget, downloads_pending_v1 = 0\<rparr>"

definition report_pdf :: upload_file where
  "report_pdf = \<lparr>file_name = ''report.pdf'', file_type = ''application/pdf'', file_size = 4096\<rparr>"

text \<open>A property name or string value as JSON text writes it.\<close>

definition dq :: "string \<Rightarrow> string" where
  "dq s = CHR 0x22 # s @ [CHR 0x22]"

text \<open>The success body of the backend's \<open>/convert\<close>, as the specification gives it.\<close>

definition success_response :: response where
  "success_response =
     \<lparr>status = 200,
      body_text = Inr (''{'' @ dq ''success'' @ '':true,'' @ dq ''file_id'' @ '':'' @ dq ''abc123'' @
                      '','' @ dq ''filename'' @ '':'' @ dq ''abc123.docx'' @ '','' @
                      dq ''original_filename'' @ '':'' @ dq ''report.docx'' @ ''}''),
      json = Inr (JObj [(''success'', JBool True), (''file_id'', JStr ''abc123''),
                        (''filename'', JStr ''abc123.docx''),
                        (''original_filename'', JStr ''report.docx'')]),
      blob = Inr 94\<rparr>"

text \<open>Its failure body, sent with status 200.\<close>

definition failure_body_response :: response where
  "failure_body_response =
     \<lparr>status = 200,
      body_text = Inr (''{'' @ dq ''success'' @ '':false,'' @ dq ''error'' @ '':'' @
                      dq ''Invalid PDF'' @ ''}''),
      json = Inr (JObj [(''success'', JBool False), (''error'', JStr ''Invalid PDF'')]),
      blob = Inr 39\<rparr>"


text \<open>Responses to \<open>/download\<close>: a document, an empty body, and a missing file.\<close>

definition docx_response :: response where
  "docx_response =
     \<lparr>status = 200, body_text = Inr ''PK'',
      json = Inl ''Unexpected token P in JSON at position 0'', blob = Inr 2048\<rparr>"

definition empty_response :: response where
  "empty_response =
     \<lparr>status = 200, body_text = Inr [], json = Inl ''Unexpected end of JSON input'',
      blob = Inr 0\<rparr>"

definition not_found_response :: response where
  "not_found_response =
     \<lparr>status = 404,
      body_text = Inr (''{'' @ dq ''error'' @ '':'' @ dq ''File not found'' @ ''}''),
      json = Inr (JObj [(''error'', JStr ''File not found'')]),
      blob = Inr 26\<rparr>"


section \<open>Properties\<close>

subsection \<open>What the shared methods establish\<close>

lemma showError_error_state: "error_state (doc (showError m w))"
  by (simp add: showError_def error_state_def)

lemma showError_message: "errorMessage_textContent (doc (showError m w)) = m"
  by (simp add: showError_def)

lemma showError_self: "self (showError m w) = self w"
  by (simp add: showError_def)

lemma showProgress_uploading: "uploading_state (doc (showProgress w))"
  by (simp add: showProgress_def uploading_state_def)

lemma showProgress_message:
  "errorMessage_textContent (doc (showProgress w)) = errorMessage_textContent (doc w)"
  by (simp add: showProgress_def)

subsection \<open>Validation in \<open>handleFile\<close>\<close>

text \<open>
  Claim C6. A file whose MIME type is not \<open>application/pdf\<close> is rejected by
  \<open>handleFile\<close> in each of the three revisions: the widget is put in the error state
  with the message \<open>Please select a PDF file\<close>, and no request is sent.
\<close>

theorem handleFile_rejects_non_pdf:
  assumes "file_type file \<noteq> ''application/pdf''"
  shows "(handleFile_v1 w file = (showError ''Please select a PDF file'' w, []) \<and>
          handleFile_v2 w file = (showError ''Please select a PDF file'' w, []) \<and>
          handleFile_v3 w file = (showError ''Please select a PDF file'' w, [])) \<and>
         error_state (doc (showError ''Please select a PDF file'' w)) \<and>
         errorMessage_textContent (doc (showError ''Please select a PDF file'' w)) =
           ''Please select a PDF file''"
  using assms
  by (simp add: handleFile_v1_def handleFile_v2_def handleFile_v3_def
      showError_error_state showError_message)

theorem handleFile_rejects_non_pdf_witness:
  "file_type \<lparr>file_name = ''notes.txt'', file_type = ''text/plain'', file_size = 12\<rparr>
     \<noteq> ''application/pdf'' \<and>
   handleFile_v1 idle_widget
     \<lparr>file_name = ''notes.txt'', file_type = ''text/plain'', file_size = 12\<rparr>
     = (showError ''Please select a PDF file'' idle_widget, []) \<and>
   handleFile_v2 idle_widget
     \<lparr>file_name = ''notes.txt'', file_type = ''text/plain'', file_size = 12\<rparr>
     = (showError ''Please select a PDF file'' idle_widget, []) \<and>
   handleFile_v3 idle_widget
     \<lparr>file_name = ''notes.txt'', file_type = ''text/plain'', file_size = 12\<rparr>
     = (showError ''Please select a PDF file'' idle_widget, [])"
  using handleFile_rejects_non_pdf
    [of "\<lparr>file_name = ''notes.txt'', file_type = ''text/plain'', file_size = 12\<rparr>"
        idle_widget]
  by simp

text \<open>
  Claim C7. A PDF file of more than 20 * 1024 * 1024 bytes is rejected by \<open>handleFile\<close>
  in each of the three revisions: the widget is put in the error state with the message
  \<open>File size must be less than 20MB\<close>, and no request is sent.
\<close>

theorem handleFile_rejects_oversized:
  assumes "file_type file = ''application/pdf''" and "file_size file > 20 * 1024 * 1024"
  shows "(handleFile_v1 w file = (showError ''File size must be less than 20MB'' w, []) \<and>
          handleFile_v2 w file = (showError ''File size must be less than 20MB'' w, []) \<and>
          handleFile_v3 w file = (showError ''File size must be less than 20MB'' w, [])) \<and>
         error_state (doc (showError ''File size must be less than 20MB'' w)) \<and>
         errorMessage_textContent (doc (showError ''File size must be less than 20MB'' w)) =
           ''File size must be less than 20MB''"
  using assms
  by (simp add: handleFile_v1_def handleFile_v2_def handleFile_v3_def
      showError_error_state showError_message)

theorem handleFile_rejects_oversized_witness:
  "file_type \<lparr>file_name = ''big.pdf'', file_type = ''application/pdf'', file_size = 20971521\<rparr>
     = ''application/pdf'' \<and>
   file_size \<lparr>file_name = ''big.pdf'', file_type = ''application/pdf'', file_size = 20971521\<rparr>
     > 20 * 1024 * 1024 \<and>
   handleFile_v1 idle_widget
     \<lparr>file_name = ''big.pdf'', file_type = ''application/pdf'', file_size = 20971521\<rparr>
     = (showError ''File size must be less than 20MB'' idle_widget, []) \<and>
   handleFile_v2 idle_widget
     \<lparr>file_name = ''big.pdf'', file_type = ''application/pdf'', file_size = 20971521\<rparr>
     = (showError ''File size must be less than 20MB'' idle_widget, []) \<and>
   handleFile_v3 idle_widget
     \<lparr>file_name = ''big.pdf'', file_type = ''application/pdf'', file_size = 20971521\<rparr>
     = (showError ''File size must be less than 20MB'' idle_widget, [])"
  using handleFile_rejects_oversized
    [of "\<lparr>file_name = ''big.pdf'', file_type = ''application/pdf'', file_size = 20971521\<rparr>"
        idle_widget]
  by simp

text \<open>
  Claim C10. A PDF file of exactly 20 * 1024 * 1024 bytes passes the checks of
  \<open>handleFile\<close> in each of the three revisions and is posted to the backend's
  \<open>/convert\<close>: the size test is a strict \<open>>\<close>, so the size named in the message
  \<open>File size must be less than 20MB\<close> is itself accepted. The widget is then in the
  uploading state and the error message is not written.
\<close>

theorem handleFile_accepts_exactly_20MiB:
  assumes "file_type file = ''application/pdf''" and "file_size file = 20 * 1024 * 1024"
  shows "handleFile_v1 w file =
           (showProgress w, [Fetch (POST (backendUrl_v1 @ ''/convert'') file)]) \<and>
         handleFile_v2 w file =
           (showProgress w, [Fetch (POST (backendUrl_v2 @ ''/convert'') file)]) \<and>
         handleFile_v3 w file =
           (showProgress w, [Fetch (POST (backendUrl_v3 @ ''/convert'') file)]) \<and>
         uploading_state (doc (showProgress w)) \<and>
         errorMessage_textContent (doc (showProgress w)) = errorMessage_textContent (doc w)"
  using assms
  by (simp add: handleFile_v1_def handleFile_v2_def handleFile_v3_def
      convertFile_v1_def convertFile_v2_def convertFile_v3_def
      showProgress_uploading showProgress_message)

theorem handleFile_accepts_exactly_20MiB_witness:
  "file_type \<lparr>file_name = ''full.pdf'', file_type = ''application/pdf'', file_size = 20971520\<rparr>
     = ''application/pdf'' \<and>
   file_size \<lparr>file_name = ''full.pdf'', file_type = ''application/pdf'', file_size = 20971520\<rparr>
     = 20 * 1024 * 1024 \<and>
   snd (handleFile_v1 idle_widget
         \<lparr>file_name = ''full.pdf'', file_type = ''application/pdf'', file_size = 20971520\<rparr>)
     = [Fetch (POST ''https://pdf2word-4hoo.onrender.com/convert''
         \<lparr>file_name = ''full.pdf'', file_type = ''application/pdf'', file_size = 20971520\<rparr>)] \<and>
   snd (handleFile_v2 idle_widget
         \<lparr>file_name = ''full.pdf'', file_type = ''application/pdf'', file_size = 20971520\<rparr>)
     = [Fetch (POST ''https://pdf2word-4hoo.onrender.com/convert''
         \<lparr>file_name = ''full.pdf'', file_type = ''application/pdf'', file_size = 20971520\<rparr>)] \<and>
   snd (handleFile_v3 idle_widget
         \<lparr>file_name = ''full.pdf'', file_type = ''application/pdf'', file_size = 20971520\<rparr>)
     = [Fetch (POST ''https://pdf2msword.netlify.app/convert''
         \<lparr>file_name = ''full.pdf'', file_type = ''application/pdf'', file_size = 20971520\<rparr>)]"
  using handleFile_accepts_exactly_20MiB
    [of "\<lparr>file_name = ''full.pdf'', file_type = ''application/pdf'', file_size = 20971520\<rparr>"
        idle_widget]
  by (simp add: backendUrl_v1_def backendUrl_v2_def backendUrl_v3_def)

text \<open>
  Claim C2, as stated, fails: an empty file that is not a PDF is rejected by the type
  test, which comes first, with the message of that test.
\<close>

theorem handleFile_empty_non_pdf_counterexample:
  "file_size \<lparr>file_name = ''empty.txt'', file_type = ''text/plain'', file_size = 0\<rparr> = 0 \<and>
   errorMessage_textContent (doc (fst (handleFile_v2 idle_widget
     \<lparr>file_name = ''empty.txt'', file_type = ''text/plain'', file_size = 0\<rparr>)))
     = ''Please select a PDF file'' \<and>
   errorMessage_textContent (doc (fst (handleFile_v2 idle_widget
     \<lparr>file_name = ''empty.txt'', file_type = ''text/plain'', file_size = 0\<rparr>)))
     \<noteq> ''File is empty''"
  by (simp add: handleFile_v2_def showError_def)

text \<open>
  Claim C2, amended. A PDF file of zero bytes is rejected by \<open>handleFile\<close> of v2 and of
  v3: the widget is put in the error state with the message \<open>File is empty\<close>, and no
  request is sent.
\<close>

theorem handleFile_rejects_empty_pdf:
  assumes "file_type file = ''application/pdf''" and "file_size file = 0"
  shows "(handleFile_v2 w file = (showError ''File is empty'' w, []) \<and>
          handleFile_v3 w file = (showError ''File is empty'' w, [])) \<and>
         error_state (doc (showError ''File is empty'' w)) \<and>
         errorMessage_textContent (doc (showError ''File is empty'' w)) = ''File is empty''"
  using assms
  by (simp add: handleFile_v2_def handleFile_v3_def showError_error_state showError_message)

theorem handleFile_rejects_empty_pdf_witness:
  "file_type \<lparr>file_name = ''empty.pdf'', file_type = ''application/pdf'', file_size = 0\<rparr>
     = ''application/pdf'' \<and>
   file_size \<lparr>file_name = ''empty.pdf'', file_type = ''application/pdf'', file_size = 0\<rparr> = 0 \<and>
   handleFile_v2 idle_widget
     \<lparr>file_name = ''empty.pdf'', file_type = ''application/pdf'', file_size = 0\<rparr>
     = (showError ''File is empty'' idle_widget, []) \<and>
   handleFile_v3 idle_widget
     \<lparr>file_name = ''empty.pdf'', file_type = ''application/pdf'', file_size = 0\<rparr>
     = (showError ''File is empty'' idle_widget, [])"
  using handleFile_rejects_empty_pdf
    [of "\<lparr>file_name = ''empty.pdf'', file_type = ''application/pdf'', file_size = 0\<rparr>"
        idle_widget]
  by simp

text \<open>v1 has no test for an empty file: it posts a PDF of zero bytes.\<close>

lemma handleFile_v1_submits_empty_pdf:
  "handleFile_v1 w \<lparr>file_name = n, file_type = ''application/pdf'', file_size = 0\<rparr> =
     (showProgress w, [Fetch (POST (backendUrl_v1 @ ''/convert'')
        \<lparr>file_name = n, file_type = ''application/pdf'', file_size = 0\<rparr>)])"
  by (simp add: handleFile_v1_def convertFile_v1_def)

subsection \<open>The response to \<open>/convert\<close>\<close>

lemma showResult_v1_result_state:
  "uploading_state (doc w) \<Longrightarrow> result_state (doc (showResult_v1 a b c w))"
  by (simp add: uploading_state_def result_state_def showResult_v1_def)

lemma showResult_v2_result_state:
  "uploading_state (doc w) \<Longrightarrow> result_state (doc (showResult_v2 a b c w))"
  by (simp add: uploading_state_def result_state_def showResult_v2_def)

lemma showResult_v3_result_state:
  "uploading_state (doc w) \<Longrightarrow> result_state (doc (showResult_v3 a b c w))"
  by (simp add: uploading_state_def result_state_def showResult_v3_def)

text \<open>
  An ok response with an object as body reaches \<open>showResult\<close> with the three fields of
  the body: in v1 and v3 whatever the body says, in v2 when its \<open>success\<close> is truthy.
\<close>

lemma convertFile_v1_success:
  assumes "ok r" and "json r = Inr (JObj kvs)"
  shows "convertFile_settled_v1 w (Inr r) =
           showResult_v1 (field_of kvs ''file_id'') (field_of kvs ''filename'')
             (field_of kvs ''original_filename'') w"
  using assms
  by (simp add: convertFile_settled_v1_def convertFile_try_v1_def try_bind_def)

lemma convertFile_v2_success:
  assumes "ok r" and "json r = Inr (JObj kvs)" and "truthy (field_of kvs ''success'')"
  shows "convertFile_settled_v2 w (Inr r) =
           showResult_v2 (field_of kvs ''file_id'') (field_of kvs ''filename'')
             (field_of kvs ''original_filename'') w"
  using assms
  by (simp add: convertFile_settled_v2_def convertFile_try_v2_def try_bind_def)

lemma convertFile_v3_success:
  assumes "ok r" and "json r = Inr (JObj kvs)"
  shows "convertFile_settled_v3 w (Inr r) =
           showResult_v3 (field_of kvs ''file_id'') (field_of kvs ''filename'')
             (field_of kvs ''original_filename'') w"
  using assms
  by (simp add: convertFile_settled_v3_def convertFile_try_v3_def try_bind_def)

lemma showResult_fields:
  "fileId (self (showResult_v1 a b c w)) = a"
  "convertedFilename (self (showResult_v1 a b c w)) = b"
  "originalFilename (self (showResult_v1 a b c w)) = c"
  "fileId (self (showResult_v2 a b c w)) = a"
  "convertedFilename (self (showResult_v2 a b c w)) = b"
  "downloadFilename (self (showResult_v2 a b c w)) = js_or c (JStr ''converted_document.docx'')"
  "fileId (self (showResult_v3 a b c w)) = a"
  "convertedFilename (self (showResult_v3 a b c w)) = b"
  "downloadFilename (self (showResult_v3 a b c w)) = js_or c (JStr ''converted_document.docx'')"
  by (simp_all add: showResult_v1_def showResult_v2_def showResult_v3_def)

text \<open>v2 tests the \<open>success\<close> field of an ok response and shows the error region.\<close>

lemma convertFile_v2_success_false:
  assumes "ok r" and "json r = Inr (JObj kvs)" and "\<not> truthy (field_of kvs ''success'')"
  shows "error_state (doc (convertFile_settled_v2 w (Inr r)))"
  using assms
  by (simp add: convertFile_settled_v2_def convertFile_try_v2_def try_bind_def
      showError_def error_state_def)

lemma convertFile_v2_error_on_failure_body:
  "convertFile_settled_v2 (showProgress w) (Inr failure_body_response)
   = showError ''Invalid PDF'' (showProgress w)"
  by (simp add: convertFile_settled_v2_def convertFile_try_v2_def try_bind_def ok_def
      field_of_def js_or_def failure_body_response_def)

text \<open>
  Claim C1, at the input where v1 breaks it. The response has status 200 and the body
  \<open>{"success": false, "error": "Invalid PDF"}\<close>. v1 never reads \<open>success\<close>: it calls
  \<open>showResult\<close> with the three absent fields, so the widget is in the result state, not
  in the error state, it stores \<open>undefined\<close> three times, and the error message is not
  written.
\<close>

theorem convertFile_v1_shows_result_on_failure_body:
  "ok failure_body_response \<and>
   json failure_body_response =
     Inr (JObj [(''success'', JBool False), (''error'', JStr ''Invalid PDF'')]) \<and>
   convertFile_settled_v1 (showProgress w) (Inr failure_body_response)
   = showResult_v1 JUndefined JUndefined JUndefined (showProgress w) \<and>
   result_state (doc (showResult_v1 JUndefined JUndefined JUndefined (showProgress w))) \<and>
   \<not> error_state (doc (showResult_v1 JUndefined JUndefined JUndefined (showProgress w))) \<and>
   errorMessage_textContent (doc (showResult_v1 JUndefined JUndefined JUndefined (showProgress w)))
     = errorMessage_textContent (doc w)"
  by (simp add: convertFile_settled_v1_def convertFile_try_v1_def try_bind_def ok_def
      field_of_def showResult_v1_def showProgress_def result_state_def error_state_def
      failure_body_response_def)

text \<open>v3 does the same as v1 there.\<close>

lemma convertFile_v3_shows_result_on_failure_body:
  "convertFile_settled_v3 (showProgress w) (Inr failure_body_response)
   = showResult_v3 JUndefined JUndefined JUndefined (showProgress w) \<and>
   result_state (doc (showResult_v3 JUndefined JUndefined JUndefined (showProgress w)))"
  by (simp add: convertFile_settled_v3_def convertFile_try_v3_def try_bind_def ok_def
      field_of_def showResult_v3_def showProgress_def result_state_def
      failure_body_response_def)

subsection \<open>The message of a failed conversion\<close>
















subsection \<open>\<open>downloadConvertedFile\<close>\<close>

text \<open>
  Claim C3, at the input where v1 breaks it. On a converter that stores no result, v1
  sends no request and writes nothing: the state is unchanged, so no error is shown.
\<close>

theorem downloadConvertedFile_v1_silent_without_result:
  "downloadConvertedFile_v1 \<lparr>self = new_converter, doc = d\<rparr> =
     (\<lparr>self = new_converter, doc = d\<rparr>, [])"
  by (simp add: downloadConvertedFile_v1_def new_converter_def)

text \<open>v2 and v3 show \<open>No file to download\<close> there, and send no request either.\<close>

lemma downloadConvertedFile_v2_without_result:
  assumes "\<not> truthy (fileId (self w))"
  shows "downloadConvertedFile_v2 w = (showError ''No file to download'' w, [])"
  using assms by (simp add: downloadConvertedFile_v2_def)

lemma downloadConvertedFile_v3_without_result:
  assumes "\<not> truthy (fileId (self w))"
  shows "downloadConvertedFile_v3 w = (showError ''No file to download'' w, [])"
  using assms by (simp add: downloadConvertedFile_v3_def)

text \<open>
  Claim C4, at the input where v1 and v3 break it. The response has status 200 and a
  body of zero bytes. v1 and v3 do not look at the size of the blob: they click the
  download link on it, and the error region and its message are left as they were.
\<close>

theorem download_saves_empty_blob:
  "ok empty_response \<and> blob empty_response = Inr 0 \<and>
   downloadConvertedFile_settled_v1 w (Inr empty_response) =
     (download_finally w,
      [SaveAs (to_string (js_or (originalFilename (self w)) (JStr ''converted.docx''))) 0]) \<and>
   downloadConvertedFile_settled_v3 w (Inr empty_response) =
     (download_finally w, [SaveAs (to_string (downloadFilename (self w))) 0]) \<and>
   errorMessage_textContent (doc (download_finally w)) = errorMessage_textContent (doc w) \<and>
   errorArea_display (doc (download_finally w)) = errorArea_display (doc w)"
  by (simp add: downloadConvertedFile_settled_v1_def downloadConvertedFile_try_v1_def
      downloadConvertedFile_settled_v3_def downloadConvertedFile_try_v3_def
      try_bind_def ok_def download_finally_def empty_response_def)

text \<open>v2 tests the size of the blob and shows an error instead.\<close>

lemma download_v2_rejects_empty_blob:
  assumes "ok r" and "blob r = Inr 0"
  shows "downloadConvertedFile_settled_v2 w (Inr r) =
     (download_finally (showError ''Download failed: Downloaded file is empty'' w), [])"
  using assms
  by (simp add: downloadConvertedFile_settled_v2_def downloadConvertedFile_try_v2_def
      try_bind_def)

subsection \<open>The download button\<close>

lemma download_finally_button:
  "\<not> downloadBtn_disabled (doc (download_finally w))"
  "downloadBtn_textContent (doc (download_finally w)) = ''Download Word Document''"
  by (simp_all add: download_finally_def)

text \<open>Whatever the \<open>try\<close> block does, the method ends with the \<open>finally\<close> block.\<close>

lemma settled_v1_finally:
  "\<exists>w'. fst (downloadConvertedFile_settled_v1 w fetched) = download_finally w'"
  by (cases "downloadConvertedFile_try_v1 fetched")
     (auto simp: downloadConvertedFile_settled_v1_def)

lemma settled_v2_finally:
  "\<exists>w'. fst (downloadConvertedFile_settled_v2 w fetched) = download_finally w'"
  by (cases "downloadConvertedFile_try_v2 fetched")
     (auto simp: downloadConvertedFile_settled_v2_def)

lemma settled_v3_finally:
  "\<exists>w'. fst (downloadConvertedFile_settled_v3 w fetched) = download_finally w'"
  by (cases "downloadConvertedFile_try_v3 fetched")
     (auto simp: downloadConvertedFile_settled_v3_def)

text \<open>
  When the fetch has settled, however it has (rejected, a response that is not ok, a
  response with a blob, a body that fails to arrive), the method leaves the button
  enabled with the label \<open>Download Word Document\<close>, in each revision.
\<close>

lemma settled_button:
  "\<not> downloadBtn_disabled (doc (fst (downloadConvertedFile_settled_v1 w fetched)))"
  "downloadBtn_textContent (doc (fst (downloadConvertedFile_settled_v1 w fetched))) =
     ''Download Word Document''"
  "\<not> downloadBtn_disabled (doc (fst (downloadConvertedFile_settled_v2 w fetched)))"
  "downloadBtn_textContent (doc (fst (downloadConvertedFile_settled_v2 w fetched))) =
     ''Download Word Document''"
  "\<not> downloadBtn_disabled (doc (fst (downloadConvertedFile_settled_v3 w fetched)))"
  "downloadBtn_textContent (doc (fst (downloadConvertedFile_settled_v3 w fetched))) =
     ''Download Word Document''"
proof -
  obtain w1 where w1: "fst (downloadConvertedFile_settled_v1 w fetched) = download_finally w1"
    using settled_v1_finally by blast
  obtain w2 where w2: "fst (downloadConvertedFile_settled_v2 w fetched) = download_finally w2"
    using settled_v2_finally by blast
  obtain w3 where w3: "fst (downloadConvertedFile_settled_v3 w fetched) = download_finally w3"
    using settled_v3_finally by blast
  show "\<not> downloadBtn_disabled (doc (fst (downloadConvertedFile_settled_v1 w fetched)))"
    "downloadBtn_textContent (doc (fst (downloadConvertedFile_settled_v1 w fetched))) =
       ''Download Word Document''"
    "\<not> downloadBtn_disabled (doc (fst (downloadConvertedFile_settled_v2 w fetched)))"
    "downloadBtn_textContent (doc (fst (downloadConvertedFile_settled_v2 w fetched))) =
       ''Download Word Document''"
    "\<not> downloadBtn_disabled (doc (fst (downloadConvertedFile_settled_v3 w fetched)))"
    "downloadBtn_textContent (doc (fst (downloadConvertedFile_settled_v3 w fetched))) =
       ''Download Word Document''"
    unfolding w1 w2 w3 by (simp_all add: download_finally_button)
qed

text \<open>The first part of the method sends one request with the button disabled, or none.\<close>

lemma started_v1:
  "snd (downloadConvertedFile_v1 w) = [] \<and>
     doc (fst (downloadConvertedFile_v1 w)) = doc w \<or>
   length (snd (downloadConvertedFile_v1 w)) = 1 \<and>
     downloadBtn_disabled (doc (fst (downloadConvertedFile_v1 w)))"
  by (simp add: downloadConvertedFile_v1_def)

lemma started_v2:
  "snd (downloadConvertedFile_v2 w) = [] \<and>
     downloadBtn_disabled (doc (fst (downloadConvertedFile_v2 w))) =
       downloadBtn_disabled (doc w) \<or>
   length (snd (downloadConvertedFile_v2 w)) = 1 \<and>
     downloadBtn_disabled (doc (fst (downloadConvertedFile_v2 w)))"
  by (simp add: downloadConvertedFile_v2_def showError_def)

lemma started_v3:
  "snd (downloadConvertedFile_v3 w) = [] \<and>
     downloadBtn_disabled (doc (fst (downloadConvertedFile_v3 w))) =
       downloadBtn_disabled (doc w) \<or>
   length (snd (downloadConvertedFile_v3 w)) = 1 \<and>
     downloadBtn_disabled (doc (fst (downloadConvertedFile_v3 w)))"
  by (simp add: downloadConvertedFile_v3_def showError_def)

lemma run_timer_button:
  "downloadBtn_disabled (doc (run_timer t w)) = downloadBtn_disabled (doc w)"
  "downloadBtn_textContent (doc (run_timer t w)) = ''Download Word Document''"
  by (cases t; simp)+

text \<open>No other method writes \<open>downloadBtn.disabled\<close>.\<close>

lemma showError_button:
  "downloadBtn_disabled (doc (showError m u)) = downloadBtn_disabled (doc u)"
  by (simp add: showError_def)

lemma handleFile_button:
  "downloadBtn_disabled (doc (fst (handleFile_v1 u file))) = downloadBtn_disabled (doc u)"
  "downloadBtn_disabled (doc (fst (handleFile_v2 u file))) = downloadBtn_disabled (doc u)"
  "downloadBtn_disabled (doc (fst (handleFile_v3 u file))) = downloadBtn_disabled (doc u)"
  by (simp_all add: handleFile_v1_def handleFile_v2_def handleFile_v3_def
      convertFile_v1_def convertFile_v2_def convertFile_v3_def showError_def showProgress_def)

lemma convertFile_settled_button:
  "downloadBtn_disabled (doc (convertFile_settled_v1 u fetched)) = downloadBtn_disabled (doc u)"
  "downloadBtn_disabled (doc (convertFile_settled_v2 u fetched)) = downloadBtn_disabled (doc u)"
  "downloadBtn_disabled (doc (convertFile_settled_v3 u fetched)) = downloadBtn_disabled (doc u)"
  by (simp_all add: convertFile_settled_v1_def convertFile_settled_v2_def
      convertFile_settled_v3_def showError_def showResult_v1_def showResult_v2_def
      showResult_v3_def split: sum.splits prod.splits)

lemma resetToUpload_button:
  "downloadBtn_disabled (doc (resetToUpload_v2 u)) = downloadBtn_disabled (doc u)"
  by (simp add: resetToUpload_v2_def)

text \<open>
  On a page of v2 or v3, whatever happens, a download request is pending only while the
  button is disabled, and never two at once: the button is disabled for the whole of
  each request.
\<close>

lemma guarded_step_v2:
  assumes "guarded (downloads_pending s) (doc (widget_now s))"
  shows "guarded (downloads_pending (step_v2 e s)) (doc (widget_now (step_v2 e s)))"
proof (cases e)
  case DownloadClicked
  then show ?thesis
    using assms started_v2 [of "widget_now s"]
    by (auto simp: guarded_def)
next
  case (DownloadSettled fetched)
  then show ?thesis
    using assms by (auto simp: guarded_def)
qed (use assms in \<open>simp_all add: guarded_def handleFile_button convertFile_settled_button
      resetToUpload_button run_timer_button\<close>)

lemma guarded_step_v3:
  assumes "guarded (downloads_pending s) (doc (widget_now s))"
  shows "guarded (downloads_pending (step_v3 e s)) (doc (widget_now (step_v3 e s)))"
proof (cases e)
  case DownloadClicked
  then show ?thesis
    using assms started_v3 [of "widget_now s"]
    by (auto simp: guarded_def)
next
  case (DownloadSettled fetched)
  then show ?thesis
    using assms by (auto simp: guarded_def)
qed (use assms in \<open>simp_all add: guarded_def handleFile_button convertFile_settled_button\<close>)

lemma guarded_run_v2:
  assumes "guarded (downloads_pending s) (doc (widget_now s))"
  shows "guarded (downloads_pending (run step_v2 es s)) (doc (widget_now (run step_v2 es s)))"
  using assms
proof (induction es arbitrary: s)
  case Nil
  then show ?case by simp
next
  case (Cons e es)
  show ?case
    using Cons.IH [OF guarded_step_v2 [OF Cons.prems]] by simp
qed

lemma guarded_run_v3:
  assumes "guarded (downloads_pending s) (doc (widget_now s))"
  shows "guarded (downloads_pending (run step_v3 es s)) (doc (widget_now (run step_v3 es s)))"
  using assms
proof (induction es arbitrary: s)
  case Nil
  then show ?case by simp
next
  case (Cons e es)
  show ?case
    using Cons.IH [OF guarded_step_v3 [OF Cons.prems]] by simp
qed

text \<open>The same on a page of v1, as long as \<open>resetConverter\<close> is not called.\<close>

lemma guarded_step_v1:
  assumes one: "length (converters s) = 1"
    and g: "guarded (downloads_pending_v1 s) (page_now s)"
    and e: "e \<noteq> ResetConverter_v1"
  shows "length (converters (step_v1 e s)) = 1 \<and>
         guarded (downloads_pending_v1 (step_v1 e s)) (page_now (step_v1 e s))"
proof -
  obtain c where c: "converters s = [c]"
    using one by (cases "converters s") simp_all
  show ?thesis
  proof (cases e)
    case (FileChosen_v1 chosen)
    then show ?thesis
      using g handleFile_button(1) [of "\<lparr>self = c, doc = page_now s\<rparr>" chosen]
      by (simp add: c Let_def guarded_def)
  next
    case (ConvertSettled_v1 i fetched)
    then show ?thesis
      using g convertFile_settled_button(1) [of "\<lparr>self = c, doc = page_now s\<rparr>" fetched]
      by (simp add: c resume_def guarded_def)
  next
    case DownloadClicked_v1
    then show ?thesis
      using g started_v1 [of "\<lparr>self = c, doc = page_now s\<rparr>"]
      by (auto simp: c Let_def guarded_def)
  next
    case (DownloadSettled_v1 i fetched)
    then show ?thesis
      using g by (auto simp: c resume_def guarded_def)
  next
    case ResetConverter_v1
    then show ?thesis using e by simp
  qed
qed

lemma guarded_run_v1:
  assumes "length (converters s) = 1"
    and "guarded (downloads_pending_v1 s) (page_now s)"
    and "ResetConverter_v1 \<notin> set es"
  shows "guarded (downloads_pending_v1 (run step_v1 es s)) (page_now (run step_v1 es s))"
  using assms
proof (induction es arbitrary: s)
  case Nil
  then show ?case by simp
next
  case (Cons e es)
  have "e \<noteq> ResetConverter_v1" and rest: "ResetConverter_v1 \<notin> set es"
    using Cons.prems(3) by auto
  then have step: "length (converters (step_v1 e s)) = 1 \<and>
      guarded (downloads_pending_v1 (step_v1 e s)) (page_now (step_v1 e s))"
    using guarded_step_v1 [OF Cons.prems(1,2)] by blast
  show ?case
    using Cons.IH [OF conjunct1 [OF step] conjunct2 [OF step] rest] by simp
qed

text \<open>
  Claim C9, at the input where v1 breaks it. \<open>resetConverter\<close> has been called once, so
  the page holds two converters; a file is chosen and both conversions succeed, so both
  store a result; one click on the download button then runs both listeners and two
  requests are sent, with the button disabled. When the first of them settles, its
  \<open>finally\<close> block enables the button, and the second request is still pending.
\<close>

theorem v1_button_enabled_during_second_request:
  "downloads_pending_v1
     (run step_v1
        [ResetConverter_v1, FileChosen_v1 report_pdf,
         ConvertSettled_v1 0 (Inr success_response), ConvertSettled_v1 1 (Inr success_response),
         DownloadClicked_v1] loaded_v1) = 2 \<and>
   downloadBtn_disabled (page_now
     (run step_v1
        [ResetConverter_v1, FileChosen_v1 report_pdf,
         ConvertSettled_v1 0 (Inr success_response), ConvertSettled_v1 1 (Inr success_response),
         DownloadClicked_v1] loaded_v1)) \<and>
   downloads_pending_v1
     (run step_v1
        [ResetConverter_v1, FileChosen_v1 report_pdf,
         ConvertSettled_v1 0 (Inr success_response), ConvertSettled_v1 1 (Inr success_response),
         DownloadClicked_v1, DownloadSettled_v1 0 (Inr docx_response)] loaded_v1) = 1 \<and>
   \<not> downloadBtn_disabled (page_now
     (run step_v1
        [ResetConverter_v1, FileChosen_v1 report_pdf,
         ConvertSettled_v1 0 (Inr success_response), ConvertSettled_v1 1 (Inr success_response),
         DownloadClicked_v1, DownloadSettled_v1 0 (Inr docx_response)] loaded_v1))"
  by (simp add: loaded_v1_def idle_widget_def new_converter_def resetConverter_v1_def
      report_pdf_def handleFile_v1_def convertFile_v1_def showProgress_def Let_def
      resume_def convertFile_settled_v1_def convertFile_try_v1_def try_bind_def ok_def
      success_response_def field_of_def showResult_v1_def downloadConvertedFile_v1_def
      downloadConvertedFile_settled_v1_def downloadConvertedFile_try_v1_def
      docx_response_def download_finally_def)

subsection \<open>Reset\<close>

lemma resetToUpload_v2_page:
  "upload_only (doc (resetToUpload_v2 w)) \<and> fileInput_value (doc (resetToUpload_v2 w)) = []"
  by (simp add: resetToUpload_v2_def upload_only_def)

text \<open>
  Claim C5, at the input where v2 breaks it. After a conversion that stored the result
  \<open>abc123\<close>, \<open>resetToUpload\<close> leaves the three fields of the result as they were (it
  writes no field of the converter at all), and a call of \<open>downloadConvertedFile\<close> after
  the reset requests that file.
\<close>

theorem resetToUpload_v2_keeps_result:
  "self (resetToUpload_v2 w) = self w \<and>
   self (convertFile_settled_v2 (showProgress idle_widget) (Inr success_response)) =
     \<lparr>fileId = JStr ''abc123'', convertedFilename = JStr ''abc123.docx'',
      originalFilename = JUndefined, downloadFilename = JStr ''report.docx''\<rparr> \<and>
   self (resetToUpload_v2
          (convertFile_settled_v2 (showProgress idle_widget) (Inr success_response))) =
     \<lparr>fileId = JStr ''abc123'', convertedFilename = JStr ''abc123.docx'',
      originalFilename = JUndefined, downloadFilename = JStr ''report.docx''\<rparr> \<and>
   snd (downloadConvertedFile_v2 (resetToUpload_v2
          (convertFile_settled_v2 (showProgress idle_widget) (Inr success_response)))) =
     [Fetch (GET ''https://pdf2word-4hoo.onrender.com/download/abc123'')]"
  by (simp add: resetToUpload_v2_def convertFile_settled_v2_def convertFile_try_v2_def
      try_bind_def ok_def success_response_def field_of_def showResult_v2_def js_or_def
      showProgress_def idle_widget_def new_converter_def downloadConvertedFile_v2_def
      backendUrl_v2_def)

text \<open>
  \<open>resetConverter\<close> of v1 writes the file input only: the regions stay as they were, so
  an error stays on the page, and the converter that stored a result stays attached.
\<close>

lemma resetConverter_v1_effect:
  "resetConverter_v1 (cs, d) = (cs @ [new_converter], d\<lparr>fileInput_value := []\<rparr>)"
  by (simp add: resetConverter_v1_def)

lemma resetConverter_v1_keeps_regions:
  "error_state (snd (resetConverter_v1 (cs, d))) = error_state d"
  "upload_only (snd (resetConverter_v1 (cs, d))) = upload_only d"
  by (simp_all add: resetConverter_v1_def error_state_def upload_only_def)

text \<open>\<open>resetConverter\<close> of v2 and v3 reloads the page, which does discard the result.\<close>

lemma resetConverter_reload:
  "self (fst (resetConverter_v2 loaded)) = new_converter"
  "doc (fst (resetConverter_v2 loaded)) = loaded"
  "self (fst (resetConverter_v3 loaded)) = new_converter"
  "doc (fst (resetConverter_v3 loaded)) = loaded"
  by (simp_all add: resetConverter_v2_def resetConverter_v3_def)

end
